theory Spec2Isabelle
  imports Main "HOL-Library.Word" "HOL-Library.Sublist"
begin

unbundle bit_operations_syntax

chapter \<open>The web3 SIP authentication module: Keccak-256, call encoding, verification\<close>

text \<open>
  The repository holds four near-identical C files. The definitions below follow
  \<^verbatim>\<open>web3_auth_standalone.c\<close> for the hash engine, the selector and the call encoder,
  \<^verbatim>\<open>web3_auth_from_working.c\<close> for the raw-string credential parser, its own variant of
  \<^verbatim>\<open>pad_string_data\<close> and \<^verbatim>\<open>verify_sip_auth\<close>, and \<^verbatim>\<open>web3_auth_fixed.c\<close> for
  \<^verbatim>\<open>extract_auth_components\<close> and \<^verbatim>\<open>verify_blockchain_auth\<close>.

  Conventions of the embedding.
  \<^item> A \<^verbatim>\<open>uint64_t\<close> is a \<^typ>\<open>64 word\<close>, a \<^verbatim>\<open>uint8_t\<close> an \<^typ>\<open>8 word\<close>.
  \<^item> A \<^verbatim>\<open>size_t\<close> (and the \<^verbatim>\<open>unsigned long\<close> that \<^verbatim>\<open>%lx\<close> prints) is 64 bits wide, as on
    the LP64 Linux targets of the module; it is a \<^typ>\<open>nat\<close> and every arithmetic result is
    reduced modulo \<open>2 ^ 64\<close> where the C code computes it.
  \<^item> A C string argument is the \<^typ>\<open>string\<close> of its characters before the terminating NUL,
    so \<^verbatim>\<open>strlen\<close> is \<^const>\<open>length\<close>. A character buffer that the code fills byte by byte is
    a \<^typ>\<open>char list\<close> that holds the NUL bytes too; \<open>c_str\<close> reads it as a C string.
  \<^item> \<^verbatim>\<open>malloc\<close>, \<^verbatim>\<open>calloc\<close> and \<^verbatim>\<open>pkg_malloc\<close> may fail: an allocator \<open>alloc\<close> tells, for
    a requested size, whether the request is granted, and a function that returns
    \<^verbatim>\<open>NULL\<close> returns \<^const>\<open>None\<close>.
  \<^item> The 1600-bit state is addressed through \<^verbatim>\<open>(uint8_t *)state\<close> on a little-endian
    machine: state byte \<open>i\<close> is byte \<open>i mod 8\<close> (counted from the least significant one)
    of lane \<open>i div 8\<close>.
\<close>

section \<open>Keccak-256\<close>

type_synonym lane = "64 word"
type_synonym byte = "8 word"

definition keccak_round_constants :: "lane list" where
  "keccak_round_constants =
    [0x0000000000000001, 0x0000000000008082, 0x800000000000808a,
     0x8000000080008000, 0x000000000000808b, 0x0000000080000001,
     0x8000000080008081, 0x8000000000008009, 0x000000000000008a,
     0x0000000000000088, 0x0000000080008009, 0x000000008000000a,
     0x000000008000808b, 0x800000000000008b, 0x8000000000008089,
     0x8000000000008003, 0x8000000000008002, 0x8000000000000080,
     0x000000000000800a, 0x800000008000000a, 0x8000000080008081,
     0x8000000000008080, 0x0000000080000001, 0x8000000080008008]"

definition rho_offsets :: "nat list" where
  "rho_offsets =
    [1, 3, 6, 10, 15, 21, 28, 36, 45, 55, 2, 14, 27, 41, 56, 8, 25, 43, 62, 18, 39, 61, 20, 44]"

definition pi_offsets :: "nat list" where
  "pi_offsets =
    [10, 7, 11, 17, 18, 3, 5, 16, 8, 21, 24, 4, 15, 23, 19, 13, 12, 2, 20, 14, 22, 9, 6, 1]"

text \<open>\<^verbatim>\<open>(x << n) | (x >> (64 - n))\<close>; the code calls it with \<open>1 \<le> n \<le> 62\<close> only.\<close>

definition rotl64 :: "lane \<Rightarrow> nat \<Rightarrow> lane" where
  "rotl64 x n = push_bit n x OR drop_bit (64 - n) x"

text \<open>Theta, first loop: the parity \<^verbatim>\<open>C[i]\<close> of each of the five columns.\<close>

definition theta_C :: "lane list \<Rightarrow> lane list" where
  "theta_C st =
     map (\<lambda>i. st ! i XOR st ! (i + 5) XOR st ! (i + 10) XOR st ! (i + 15) XOR st ! (i + 20)) [0..<5]"

text \<open>Theta, second loop: \<^verbatim>\<open>D\<close> for column \<open>i\<close>, and the inner loop that XORs it into the
  five lanes \<^verbatim>\<open>state[j + i]\<close>, \<open>j = 0, 5, 10, 15, 20\<close>.\<close>

definition theta_D :: "lane list \<Rightarrow> nat \<Rightarrow> lane" where
  "theta_D C i = C ! ((i + 4) mod 5) XOR rotl64 (C ! ((i + 1) mod 5)) 1"

definition xor_column :: "lane list \<Rightarrow> nat \<Rightarrow> lane \<Rightarrow> lane list" where
  "xor_column st i D = fold (\<lambda>j s. s[j + i := s ! (j + i) XOR D]) [0, 5, 10, 15, 20] st"

definition theta_columns :: "lane list \<Rightarrow> lane list \<Rightarrow> lane list" where
  "theta_columns C st = fold (\<lambda>i s. xor_column s i (theta_D C i)) [0..<5] st"

definition theta :: "lane list \<Rightarrow> lane list" where
  "theta st = theta_columns (theta_C st) st"

text \<open>Rho and Pi in one pass: the loop state is the lane array and \<^verbatim>\<open>current\<close>.\<close>

definition rho_pi :: "lane list \<Rightarrow> lane list" where
  "rho_pi st =
     fst (fold (\<lambda>i (s, current).
                  let j = pi_offsets ! i; temp = s ! j
                  in (s[j := rotl64 current (rho_offsets ! i)], temp))
               [0..<24] (st, st ! 1))"

text \<open>Chi, one row: the five lanes are copied to \<^verbatim>\<open>t\<close> before any is overwritten.\<close>

definition chi_row :: "lane list \<Rightarrow> nat \<Rightarrow> lane list" where
  "chi_row st j =
     (let t = map (\<lambda>i. st ! (j + i)) [0..<5]
      in fold (\<lambda>i s. s[j + i := t ! i XOR (NOT (t ! ((i + 1) mod 5)) AND t ! ((i + 2) mod 5))])
              [0..<5] st)"

definition chi :: "lane list \<Rightarrow> lane list" where
  "chi st = fold (\<lambda>j s. chi_row s j) [0, 5, 10, 15, 20] st"

definition iota :: "nat \<Rightarrow> lane list \<Rightarrow> lane list" where
  "iota round st = st[0 := st ! 0 XOR keccak_round_constants ! round]"

definition keccak_round :: "nat \<Rightarrow> lane list \<Rightarrow> lane list" where
  "keccak_round round st = iota round (chi (rho_pi (theta st)))"

definition keccak_f1600 :: "lane list \<Rightarrow> lane list" where
  "keccak_f1600 st = fold keccak_round [0..<24] st"

text \<open>\<^verbatim>\<open>state_bytes[i] ^= b\<close> and the read of \<^verbatim>\<open>state_bytes[i]\<close>.\<close>

definition xor_state_byte :: "lane list \<Rightarrow> nat \<Rightarrow> byte \<Rightarrow> lane list" where
  "xor_state_byte st i b = st[i div 8 := st ! (i div 8) XOR push_bit (8 * (i mod 8)) (ucast b)]"

definition get_state_byte :: "lane list \<Rightarrow> nat \<Rightarrow> byte" where
  "get_state_byte st i = ucast (drop_bit (8 * (i mod 8)) (st ! (i div 8)))"

text \<open>\<^verbatim>\<open>for (i = 0; i < n; i++) state_bytes[i] ^= input[offset + i]\<close>, from state byte \<open>i\<close> on.\<close>

fun xor_block :: "lane list \<Rightarrow> nat \<Rightarrow> byte list \<Rightarrow> lane list" where
  "xor_block st i [] = st"
| "xor_block st i (b # bs) = xor_block (xor_state_byte st i b) (Suc i) bs"

text \<open>The absorb loop \<^verbatim>\<open>while (input_len >= rate)\<close>, \<open>rate = 136\<close>: it returns the state
  and the input that is left.\<close>

function absorb :: "lane list \<Rightarrow> byte list \<Rightarrow> lane list \<times> byte list" where
  "absorb st input =
     (if length input \<ge> 136
      then absorb (keccak_f1600 (xor_block st 0 (take 136 input))) (drop 136 input)
      else (st, input))"
  by pat_completeness auto
termination
  by (relation "measure (\<lambda>(st, input). length input)") auto

declare absorb.simps [simp del]

text \<open>What follows the loop: the state after the remaining input is XORed in, the state
  after the two padding XORs, the final permutation and the \<^verbatim>\<open>memcpy\<close> of 32 bytes.\<close>

definition absorb_rest :: "lane list \<Rightarrow> byte list \<Rightarrow> lane list" where
  "absorb_rest st rest = xor_block st 0 rest"

definition pad_state :: "lane list \<Rightarrow> nat \<Rightarrow> lane list" where
  "pad_state st input_len = xor_state_byte (xor_state_byte st input_len 0x01) (136 - 1) 0x80"

definition keccak_finish :: "lane list \<Rightarrow> byte list \<Rightarrow> byte list" where
  "keccak_finish st rest =
     map (get_state_byte (keccak_f1600 (pad_state (absorb_rest st rest) (length rest)))) [0..<32]"

definition keccak256 :: "byte list \<Rightarrow> byte list" where
  "keccak256 input = (case absorb (replicate 25 0) input of (st, rest) \<Rightarrow> keccak_finish st rest)"

text \<open>Names for what \<^verbatim>\<open>keccak256\<close> holds after its absorb loop: the input that is left,
  the state once that input is XORed in, and the state once the padding is XORed in.\<close>

definition remaining_input :: "byte list \<Rightarrow> byte list" where
  "remaining_input input = snd (absorb (replicate 25 0) input)"

definition absorbed_state :: "byte list \<Rightarrow> lane list" where
  "absorbed_state input = absorb_rest (fst (absorb (replicate 25 0) input)) (remaining_input input)"

definition padded_state :: "byte list \<Rightarrow> lane list" where
  "padded_state input = pad_state (absorbed_state input) (length (remaining_input input))"

section \<open>C strings, \<^verbatim>\<open>size_t\<close> and \<^verbatim>\<open>printf\<close> conversions\<close>

type_synonym allocator = "nat \<Rightarrow> bool"

definition size_t :: "nat \<Rightarrow> nat" where
  "size_t n = n mod 2 ^ 64"

text \<open>\<^verbatim>\<open>a - b\<close> on \<^verbatim>\<open>size_t\<close> operands, which wraps below zero.\<close>

definition size_t_minus :: "nat \<Rightarrow> nat \<Rightarrow> nat" where
  "size_t_minus a b = (2 ^ 64 + a - b) mod 2 ^ 64"

definition c_str :: "char list \<Rightarrow> string" where
  "c_str buf = takeWhile (\<lambda>c. c \<noteq> CHR 0x00) buf"

text \<open>\<^verbatim>\<open>strstr\<close> and \<^verbatim>\<open>strchr\<close> return the rest of the string from the first match on.\<close>

fun strstr :: "string \<Rightarrow> string \<Rightarrow> string option" where
  "strstr [] needle = (if needle = [] then Some [] else None)"
| "strstr (c # cs) needle = (if prefix needle (c # cs) then Some (c # cs) else strstr cs needle)"

definition strchr :: "string \<Rightarrow> char \<Rightarrow> string option" where
  "strchr s c = (case dropWhile (\<lambda>x. x \<noteq> c) s of [] \<Rightarrow> None | r # rs \<Rightarrow> Some (r # rs))"

definition hex_digit :: "nat \<Rightarrow> char" where
  "hex_digit d = ''0123456789abcdef'' ! d"

text \<open>\<^verbatim>\<open>%02x\<close> of an \<^verbatim>\<open>unsigned char\<close> value (below 256): exactly two digits.\<close>

definition fmt_02x :: "nat \<Rightarrow> string" where
  "fmt_02x v = [hex_digit (v div 16), hex_digit (v mod 16)]"

text \<open>\<^verbatim>\<open>%lx\<close>: the hexadecimal digits without leading zeros; \<^verbatim>\<open>%064lx\<close>: the same, padded
  with zeros on the left to at least 64 characters.\<close>

fun fmt_lx :: "nat \<Rightarrow> string" where
  "fmt_lx n = (if n < 16 then [hex_digit n] else fmt_lx (n div 16) @ [hex_digit (n mod 16)])"

declare fmt_lx.simps [simp del]

definition fmt_064lx :: "nat \<Rightarrow> string" where
  "fmt_064lx n = replicate (64 - length (fmt_lx n)) (CHR ''0'') @ fmt_lx n"

text \<open>\<^verbatim>\<open>sprintf(buf + pos, "%02x", (unsigned char)c)\<close>: two digits and the terminating NUL.\<close>

definition sprintf_02x :: "char list \<Rightarrow> nat \<Rightarrow> char \<Rightarrow> char list" where
  "sprintf_02x buf pos c =
     buf[pos := hex_digit (of_char c div 16),
         pos + 1 := hex_digit (of_char c mod 16),
         pos + 2 := CHR 0x00]"

section \<open>Selector and call encoder\<close>

text \<open>\<^verbatim>\<open>snprintf(selector, 11, "0x%02x%02x%02x%02x", hash[0], hash[1], hash[2], hash[3])\<close>
  writes at most ten characters.\<close>

definition get_function_selector :: "allocator \<Rightarrow> string \<Rightarrow> string option" where
  "get_function_selector alloc function_signature =
     (let hash = keccak256 (map of_char function_signature)
      in if \<not> alloc 11 then None
         else Some (take 10 (''0x'' @ fmt_02x (unat (hash ! 0)) @ fmt_02x (unat (hash ! 1))
                               @ fmt_02x (unat (hash ! 2)) @ fmt_02x (unat (hash ! 3)))))"

text \<open>\<^verbatim>\<open>padded_len\<close> as \<^verbatim>\<open>pad_string_data\<close> computes it, in all four files.\<close>

definition padded_length :: "nat \<Rightarrow> nat" where
  "padded_length len =
     (let padded_len = size_t (size_t (len + 31) div 32 * 32)
      in if padded_len = 0 then 32 else padded_len)"

text \<open>
  \<^verbatim>\<open>pad_string_data\<close> of \<^verbatim>\<open>web3_auth_standalone.c\<close> (the same text is in
  \<^verbatim>\<open>web3_auth_fixed.c\<close> and \<^verbatim>\<open>test_core.c\<close>): the buffer of \<open>padded_len * 2 + 1\<close> bytes is
  filled with \<open>'0'\<close> and terminated, then each \<^verbatim>\<open>sprintf\<close> writes two digits and a NUL.
  The result is the buffer, \<^verbatim>\<open>*padded_length\<close> comes with it.
\<close>

definition pad_string_data :: "allocator \<Rightarrow> string \<Rightarrow> (char list \<times> nat) option" where
  "pad_string_data alloc str =
     (let len = length str;
          padded_len = padded_length len
      in if \<not> alloc (size_t (padded_len * 2 + 1)) then None
         else let padded = replicate (padded_len * 2) (CHR ''0'') @ [CHR 0x00];
                  padded = fold (\<lambda>i buf. sprintf_02x buf (i * 2) (str ! i)) [0..<len] padded
              in Some (padded, padded_len))"

text \<open>
  \<^verbatim>\<open>pad_string_data\<close> of \<^verbatim>\<open>web3_auth_from_working.c\<close>: the buffer comes zeroed from
  \<^verbatim>\<open>calloc\<close>, the digits are written, and only then the rest is filled with \<open>'0'\<close> and
  terminated.
\<close>

definition pad_string_data_from_working :: "allocator \<Rightarrow> string \<Rightarrow> (char list \<times> nat) option" where
  "pad_string_data_from_working alloc str =
     (let len = length str;
          padded_len = padded_length len
      in if \<not> alloc (size_t (padded_len * 2 + 1)) then None
         else let padded = replicate (padded_len * 2 + 1) (CHR 0x00);
                  padded = fold (\<lambda>i buf. sprintf_02x buf (i * 2) (str ! i)) [0..<len] padded;
                  padded = fold (\<lambda>i buf. buf[i := CHR ''0'']) [len * 2..<padded_len * 2] padded;
                  padded = padded[padded_len * 2 := CHR 0x00]
              in Some (padded, padded_len))"

text \<open>
  \<^verbatim>\<open>encode_digest_hash_call\<close> has the same text in every file and differs through the
  \<^verbatim>\<open>pad_string_data\<close> it calls, which is a parameter here. \<^verbatim>\<open>snprintf\<close> writes at most
  \<open>total_size - 1\<close> characters.
\<close>

definition encode_with ::
  "(allocator \<Rightarrow> string \<Rightarrow> (char list \<times> nat) option) \<Rightarrow> allocator \<Rightarrow>
     string \<Rightarrow> string \<Rightarrow> string \<Rightarrow> string \<Rightarrow> string \<Rightarrow> string option" where
  "encode_with pad alloc str1 str2 str3 str4 str5 =
     (case get_function_selector alloc ''getDigestHash(string,string,string,string,string)'' of
        None \<Rightarrow> None
      | Some selector \<Rightarrow>
     (case pad alloc str1 of None \<Rightarrow> None | Some (padded_str1, padded_len1) \<Rightarrow>
     (case pad alloc str2 of None \<Rightarrow> None | Some (padded_str2, padded_len2) \<Rightarrow>
     (case pad alloc str3 of None \<Rightarrow> None | Some (padded_str3, padded_len3) \<Rightarrow>
     (case pad alloc str4 of None \<Rightarrow> None | Some (padded_str4, padded_len4) \<Rightarrow>
     (case pad alloc str5 of None \<Rightarrow> None | Some (padded_str5, padded_len5) \<Rightarrow>
       (let len1 = length str1; len2 = length str2; len3 = length str3;
            len4 = length str4; len5 = length str5;
            offset1 = 0xA0;
            offset2 = size_t (offset1 + 32 + padded_len1);
            offset3 = size_t (offset2 + 32 + padded_len2);
            offset4 = size_t (offset3 + 32 + padded_len3);
            offset5 = size_t (offset4 + 32 + padded_len4);
            total_size = size_t (8 + (64 * 5) + (64 * 5) + length (c_str padded_str1)
                           + length (c_str padded_str2) + length (c_str padded_str3)
                           + length (c_str padded_str4) + length (c_str padded_str5) + 1)
        in if \<not> alloc total_size then None
           else Some (take (total_size - 1)
                  (drop 2 selector
                   @ fmt_064lx offset1 @ fmt_064lx offset2 @ fmt_064lx offset3
                   @ fmt_064lx offset4 @ fmt_064lx offset5
                   @ fmt_064lx len1 @ c_str padded_str1
                   @ fmt_064lx len2 @ c_str padded_str2
                   @ fmt_064lx len3 @ c_str padded_str3
                   @ fmt_064lx len4 @ c_str padded_str4
                   @ fmt_064lx len5 @ c_str padded_str5)))))))))"

definition encode_digest_hash_call ::
  "allocator \<Rightarrow> string \<Rightarrow> string \<Rightarrow> string \<Rightarrow> string \<Rightarrow> string \<Rightarrow> string option" where
  "encode_digest_hash_call = encode_with pad_string_data"

definition encode_digest_hash_call_from_working ::
  "allocator \<Rightarrow> string \<Rightarrow> string \<Rightarrow> string \<Rightarrow> string \<Rightarrow> string \<Rightarrow> string option" where
  "encode_digest_hash_call_from_working = encode_with pad_string_data_from_working"

text \<open>
  The decoder of the round-trip law. The repository has no decoder (the contract reads
  the call data), so this one is written from the specification's words: read the five
  head offset words, at each offset the length word, then that many data bytes. The call
  data is the hexadecimal text the encoder produces: two characters per byte, the
  parameter block starting after the eight characters of the selector.
\<close>

definition in_range :: "char \<Rightarrow> char \<Rightarrow> char \<Rightarrow> bool" where
  "in_range lo hi c \<longleftrightarrow> (of_char lo :: nat) \<le> of_char c \<and> (of_char c :: nat) \<le> of_char hi"

definition hex_value :: "char \<Rightarrow> nat" where
  "hex_value c =
     (if in_range (CHR ''0'') (CHR ''9'') c then of_char c - of_char (CHR ''0'')
      else if in_range (CHR ''a'') (CHR ''f'') c then of_char c - of_char (CHR ''a'') + 10
      else if in_range (CHR ''A'') (CHR ''F'') c then of_char c - of_char (CHR ''A'') + 10
      else 0)"

definition hex_to_nat :: "string \<Rightarrow> nat" where
  "hex_to_nat cs = fold (\<lambda>c n. 16 * n + hex_value c) cs 0"

fun hex_to_string :: "string \<Rightarrow> string" where
  "hex_to_string (h # l # cs) = char_of (16 * hex_value h + hex_value l) # hex_to_string cs"
| "hex_to_string cs = []"

definition spec_word_at :: "string \<Rightarrow> nat \<Rightarrow> nat" where
  "spec_word_at call_data off = hex_to_nat (take 64 (drop (8 + 2 * off) call_data))"

definition spec_string_at :: "string \<Rightarrow> nat \<Rightarrow> string" where
  "spec_string_at call_data off =
     hex_to_string (take (2 * spec_word_at call_data off) (drop (8 + 2 * (off + 32)) call_data))"

definition spec_decode :: "string \<Rightarrow> string list" where
  "spec_decode call_data =
     map (\<lambda>i. spec_string_at call_data (spec_word_at call_data (32 * i))) [0..<5]"

section \<open>Credentials\<close>

text \<open>\<^verbatim>\<open>sip_auth_t\<close>; its field \<^verbatim>\<open>method\<close> is \<open>sip_method\<close> here.\<close>

record sip_auth_t =
  username :: string
  realm :: string
  uri :: string
  nonce :: string
  response :: string
  sip_method :: string

definition MAX_FIELD_SIZE :: nat where
  "MAX_FIELD_SIZE = 256"

definition MAX_AUTH_HEADER_SIZE :: nat where
  "MAX_AUTH_HEADER_SIZE = 2048"

subsection \<open>The raw string source (\<^verbatim>\<open>web3_auth_from_working.c\<close>)\<close>

text \<open>
  \<^verbatim>\<open>(char)strtol(hex, NULL, 16)\<close> on the two characters after a \<open>%\<close>: white space is
  skipped, a sign is taken, then as many hexadecimal digits as there are; no digit gives
  0. The value is then cut to a byte.
\<close>

definition is_hex :: "char \<Rightarrow> bool" where
  "is_hex c \<longleftrightarrow> in_range (CHR ''0'') (CHR ''9'') c \<or> in_range (CHR ''a'') (CHR ''f'') c
                \<or> in_range (CHR ''A'') (CHR ''F'') c"

definition is_space :: "char \<Rightarrow> bool" where
  "is_space c \<longleftrightarrow> c \<in> {CHR '' '', CHR 0x09, CHR 0x0A, CHR 0x0B, CHR 0x0C, CHR 0x0D}"

definition strtol16_char :: "char \<Rightarrow> char \<Rightarrow> char" where
  "strtol16_char c1 c2 =
     (if is_hex c1 then
        (if is_hex c2 then char_of (16 * hex_value c1 + hex_value c2) else char_of (hex_value c1))
      else if c1 = CHR ''+'' \<or> is_space c1 then
        (if is_hex c2 then char_of (hex_value c2) else CHR 0x00)
      else if c1 = CHR ''-'' then
        (if is_hex c2 then char_of (256 - hex_value c2) else CHR 0x00)
      else CHR 0x00)"

text \<open>The loop of \<^verbatim>\<open>url_decode\<close>: the source that is left and the room that is left in
  \<^verbatim>\<open>dest\<close> (\<open>dest_size - 1 - dest_idx\<close>). A \<open>%\<close> is decoded when two more characters
  follow it (\<^verbatim>\<open>i + 2 < src_len\<close>).\<close>

fun url_decode_loop :: "string \<Rightarrow> nat \<Rightarrow> char list" where
  "url_decode_loop [] room = []"
| "url_decode_loop (c # cs) room =
     (if room = 0 then []
      else if c = CHR ''%'' \<and> 2 \<le> length cs
           then strtol16_char (cs ! 0) (cs ! 1) # url_decode_loop (drop 2 cs) (room - 1)
      else if c = CHR ''+'' then CHR '' '' # url_decode_loop cs (room - 1)
      else c # url_decode_loop cs (room - 1))"

definition url_decode :: "string \<Rightarrow> nat \<Rightarrow> string" where
  "url_decode src dest_size = c_str (url_decode_loop src (size_t_minus dest_size 1))"

text \<open>\<^verbatim>\<open>extract_field\<close>: \<^const>\<open>None\<close> is the return value 0, \<open>Some output\<close> the return value 1
  with the text left in \<^verbatim>\<open>output\<close>. The pattern buffer has 64 bytes.\<close>

definition extract_field :: "string \<Rightarrow> string \<Rightarrow> nat \<Rightarrow> string option" where
  \<open>extract_field auth_header field_name output_size =
     (let pattern = take 63 (field_name @ ''="'')
      in case strstr auth_header pattern of
           None \<Rightarrow> None
         | Some found \<Rightarrow>
             (let start = drop (length pattern) found
              in case strchr start (CHR 0x22) of
                   None \<Rightarrow> None
                 | Some end_quote \<Rightarrow>
                     (let field_len = length start - length end_quote;
                          field_len = (if field_len \<ge> output_size
                                       then size_t_minus output_size 1 else field_len)
                      in Some (take field_len start))))\<close>

text \<open>\<^verbatim>\<open>parse_auth_header\<close>: \<open>Inl\<close> carries the failure message it prints before it
  returns 0, \<open>Inr\<close> the record it has filled when it returns 1.\<close>

definition parse_auth_header :: "string \<Rightarrow> string + sip_auth_t" where
  "parse_auth_header auth_header =
     (let decoded_header = url_decode auth_header MAX_AUTH_HEADER_SIZE
      in case extract_field decoded_header ''username'' MAX_FIELD_SIZE of
           None \<Rightarrow> Inl ''Failed to extract username''
         | Some u \<Rightarrow>
      (case extract_field decoded_header ''realm'' MAX_FIELD_SIZE of
           None \<Rightarrow> Inl ''Failed to extract realm''
         | Some r \<Rightarrow>
      (case extract_field decoded_header ''uri'' MAX_FIELD_SIZE of
           None \<Rightarrow> Inl ''Failed to extract uri''
         | Some i \<Rightarrow>
      (case extract_field decoded_header ''nonce'' MAX_FIELD_SIZE of
           None \<Rightarrow> Inl ''Failed to extract nonce''
         | Some n \<Rightarrow>
      (case extract_field decoded_header ''response'' MAX_FIELD_SIZE of
           None \<Rightarrow> Inl ''Failed to extract response''
         | Some p \<Rightarrow>
             Inr \<lparr>username = u, realm = r, uri = i, nonce = n, response = p,
                  sip_method = ''REGISTER''\<rparr>)))))"

subsection \<open>The structured header source (\<^verbatim>\<open>web3_auth_fixed.c\<close>)\<close>

text \<open>
  The SIP message and its parser belong to the host. What \<^verbatim>\<open>extract_auth_components\<close>
  reads of them is a record: whether \<^verbatim>\<open>parse_headers\<close> succeeds, the first header of type
  \<^verbatim>\<open>HDR_AUTHORIZATION_T\<close> if there is one, whether \<^verbatim>\<open>parse_credentials\<close> succeeds on it,
  the parsed credentials (\<^verbatim>\<open>hf->parsed\<close>, which may be \<^verbatim>\<open>NULL\<close>), and the request method. A
  counted string \<^verbatim>\<open>str\<close> is \<^const>\<open>None\<close> when its pointer \<^verbatim>\<open>s\<close> is \<^verbatim>\<open>NULL\<close>, else its \<^verbatim>\<open>len\<close>
  characters.
\<close>

type_synonym str = "string option"

record dig_cred =
  digest_username :: str
  digest_realm :: str
  digest_uri :: str
  digest_nonce :: str
  digest_response :: str

record hdr_field =
  parse_credentials_ok :: bool
  parsed :: "dig_cred option"

record sip_msg =
  parse_headers_ok :: bool
  authorization :: "hdr_field option"
  request_method :: string

text \<open>One field: \<^verbatim>\<open>if (f.s && f.len < MAX_FIELD_SIZE) { copy } else { LM_ERR; return -1; }\<close>.
  The five required fields are read in turn, then the method of the request line, which
  is replaced by \<open>REGISTER\<close> when it does not fit. \<open>Inl\<close> carries the text of the error
  that is logged before \<open>-1\<close> is returned.\<close>

definition field_ok :: "str \<Rightarrow> bool" where
  "field_ok f = (case f of None \<Rightarrow> False | Some v \<Rightarrow> length v < MAX_FIELD_SIZE)"

definition extract_fields :: "dig_cred \<Rightarrow> string \<Rightarrow> string + sip_auth_t" where
  "extract_fields cred req_method =
     (if \<not> field_ok (digest_username cred) then Inl ''Invalid or missing username''
      else if \<not> field_ok (digest_realm cred) then Inl ''Invalid or missing realm''
      else if \<not> field_ok (digest_uri cred) then Inl ''Invalid or missing URI''
      else if \<not> field_ok (digest_nonce cred) then Inl ''Invalid or missing nonce''
      else if \<not> field_ok (digest_response cred) then Inl ''Invalid or missing response''
      else Inr \<lparr>username = the (digest_username cred),
                realm = the (digest_realm cred),
                uri = the (digest_uri cred),
                nonce = the (digest_nonce cred),
                response = the (digest_response cred),
                sip_method = (if length req_method < MAX_FIELD_SIZE
                          then req_method else ''REGISTER'')\<rparr>)"

definition extract_auth_components :: "sip_msg \<Rightarrow> string + sip_auth_t" where
  "extract_auth_components msg =
     (if \<not> parse_headers_ok msg then Inl ''Failed to parse headers''
      else (case authorization msg of
              None \<Rightarrow> Inl ''No Authorization header found''
            | Some hf \<Rightarrow>
                (if \<not> parse_credentials_ok hf then Inl ''Failed to parse authorization header''
                 else (case parsed hf of
                         None \<Rightarrow> Inl ''No credentials in authorization header''
                       | Some cred \<Rightarrow> extract_fields cred (request_method msg)))))"

section \<open>Verification\<close>

text \<open>\<^verbatim>\<open>extract_result\<close>: the text between \<^verbatim>\<open>"result":"\<close> and the next double quote.\<close>

definition extract_result :: "allocator \<Rightarrow> string \<Rightarrow> string option" where
  \<open>extract_result alloc json =
     (let pattern = ''"result":"''
      in case strstr json pattern of
           None \<Rightarrow> None
         | Some found \<Rightarrow>
             (let result_start = drop (length pattern) found
              in case strchr result_start (CHR 0x22) of
                   None \<Rightarrow> None
                 | Some result_end \<Rightarrow>
                     (let len = length result_start - length result_end
                      in if \<not> alloc (size_t (len + 1)) then None
                         else Some (take len result_start))))\<close>

text \<open>\<^verbatim>\<open>strip_trailing_zeros\<close>, called with a non-\<^verbatim>\<open>NULL\<close> result; the value is what it
  leaves in \<^verbatim>\<open>stripped\<close>.\<close>

definition strip_trailing_zeros :: "string \<Rightarrow> nat \<Rightarrow> string" where
  "strip_trailing_zeros hex_result stripped_size =
     (if length hex_result < 66 then []
      else let copy_len = 32;
               copy_len = (if copy_len \<ge> stripped_size then size_t_minus stripped_size 1
                           else copy_len)
           in take copy_len (drop 2 hex_result))"

text \<open>
  The environment of one attempt: the allocator, whether \<^verbatim>\<open>curl_easy_init\<close> gives a
  handle, and what \<^verbatim>\<open>curl_easy_perform\<close> does with the posted payload. A transfer that
  succeeds leaves the body in \<^verbatim>\<open>response.memory\<close>, which stays \<^verbatim>\<open>NULL\<close> (\<^const>\<open>None\<close>) when
  the write callback was never called.
\<close>

datatype curl_result = CurlFailed | CurlOk "string option"

record env =
  alloc :: allocator
  curl_init_ok :: bool
  perform :: "string \<Rightarrow> curl_result"

text \<open>
  The functions return an integer and print one diagnostic line that tells which way
  the attempt ended. The lines, in \<^verbatim>\<open>verify_sip_auth\<close> and in \<^verbatim>\<open>verify_blockchain_auth\<close>:
  \<^item> \<open>EncodingError\<close>: ``Error encoding call data'' (both);
  \<^item> \<open>CurlInitFailed\<close>: ``Failed to initialize curl'' (both);
  \<^item> \<open>PayloadAllocFailed\<close>: ``Failed to allocate payload memory'' (the second only);
  \<^item> \<open>PerformFailed\<close>: ``curl_easy_perform() failed: ...'' (both);
  \<^item> \<open>UserNotFound\<close>: ``User not found in contract - authorization rejected'',
    ``User ... not found in blockchain contract'';
  \<^item> \<open>ContractError\<close>: ``Error getting digest hash from contract'',
    ``Error from blockchain contract'';
  \<^item> \<open>NoResult\<close>: ``Could not extract result from blockchain response'' (both);
  \<^item> \<open>ResponsesMatch\<close>: ``Authorization successful - responses match!'',
    ``Blockchain authentication successful for user ...'';
  \<^item> \<open>ResponseMismatch\<close>: ``Authorization failed - response mismatch'',
    ``Blockchain authentication failed for user ... - response mismatch''.
\<close>

datatype diag =
    EncodingError | CurlInitFailed | PayloadAllocFailed | PerformFailed
  | UserNotFound | ContractError | NoResult | ResponsesMatch | ResponseMismatch

definition CONTRACT_ADDRESS :: string where
  "CONTRACT_ADDRESS = ''0x1b55e67Ce5118559672Bf9EC0564AE3A46C41000''"

text \<open>\<^verbatim>\<open>snprintf(payload, 8192, ...)\<close> of the JSON-RPC request.\<close>

definition rpc_payload :: "string \<Rightarrow> string \<Rightarrow> string" where
  \<open>rpc_payload address call_data =
     take 8191 (''{"jsonrpc":"2.0","method":"eth_call","params":[{"to":"'' @ address
                @ ''","data":"0x'' @ call_data @ ''"},"latest"],"id":1}'')\<close>

text \<open>What both functions do with the body of a transfer that succeeded. \<open>ok\<close> and
  \<open>forbidden\<close> are the two integers the function returns.\<close>

definition check_response :: "allocator \<Rightarrow> int \<Rightarrow> int \<Rightarrow> sip_auth_t \<Rightarrow> string \<Rightarrow> int \<times> diag" where
  \<open>check_response al ok forbidden auth body =
     (if strstr body ''"error"'' \<noteq> None then
        (if strstr body ''User not found'' \<noteq> None then (forbidden, UserNotFound)
         else (forbidden, ContractError))
      else case extract_result al body of
             None \<Rightarrow> (forbidden, NoResult)
           | Some result_hex \<Rightarrow>
               (let expected_response = strip_trailing_zeros result_hex 64
                in if expected_response = response auth then (ok, ResponsesMatch)
                   else (forbidden, ResponseMismatch)))\<close>

text \<open>\<^verbatim>\<open>verify_sip_auth\<close> of \<^verbatim>\<open>web3_auth_from_working.c\<close> returns 200 or 403. The value
  \<^const>\<open>None\<close> stands for the undefined read of a \<^verbatim>\<open>NULL\<close> body by \<^verbatim>\<open>strstr\<close>.\<close>

definition verify_sip_auth :: "env \<Rightarrow> sip_auth_t \<Rightarrow> (int \<times> diag) option" where
  "verify_sip_auth e auth =
     (case encode_digest_hash_call_from_working (alloc e)
             (username auth) (realm auth) (sip_method auth) (uri auth) (nonce auth) of
        None \<Rightarrow> Some (403, EncodingError)
      | Some call_data \<Rightarrow>
          (if \<not> curl_init_ok e then Some (403, CurlInitFailed)
           else (case perform e (rpc_payload CONTRACT_ADDRESS call_data) of
                   CurlFailed \<Rightarrow> Some (403, PerformFailed)
                 | CurlOk None \<Rightarrow> None
                 | CurlOk (Some body) \<Rightarrow> Some (check_response (alloc e) 200 403 auth body))))"

text \<open>\<^verbatim>\<open>verify_blockchain_auth\<close> of \<^verbatim>\<open>web3_auth_fixed.c\<close> returns 1 or -1, calls the
  encoder of its own file (the one of \<^verbatim>\<open>web3_auth_standalone.c\<close>), allocates the payload
  and reads the contract address from the module parameter.\<close>

definition verify_blockchain_auth :: "env \<Rightarrow> string \<Rightarrow> sip_auth_t \<Rightarrow> (int \<times> diag) option" where
  "verify_blockchain_auth e contract_address auth =
     (case encode_digest_hash_call (alloc e)
             (username auth) (realm auth) (sip_method auth) (uri auth) (nonce auth) of
        None \<Rightarrow> Some (- 1, EncodingError)
      | Some call_data \<Rightarrow>
          (if \<not> curl_init_ok e then Some (- 1, CurlInitFailed)
           else if \<not> alloc e 8192 then Some (- 1, PayloadAllocFailed)
           else (case perform e (rpc_payload contract_address call_data) of
                   CurlFailed \<Rightarrow> Some (- 1, PerformFailed)
                 | CurlOk None \<Rightarrow> None
                 | CurlOk (Some body) \<Rightarrow> Some (check_response (alloc e) 1 (- 1) auth body))))"

section \<open>Evaluating the permutation by rewriting\<close>

text \<open>
  The digests below are computed inside the logic. The loops are first unrolled on a
  state of 25 lanes, once and for all; a rotation by a fixed amount of a lane given as a
  numeral is reduced to operations on integers that keep the result below \<open>2 ^ 64\<close>.
\<close>

lemma upt_5: "[0..<5] = [0, 1, 2, 3, 4]"
  by code_simp

lemma upt_24:
  "[0..<24] = [0, 1, 2, 3, 4, 5, 6, 7, 8, 9, 10, 11, 12, 13, 14, 15, 16, 17, 18, 19, 20, 21, 22, 23]"
  by code_simp

lemma upt_32:
  "[0..<32] = [0, 1, 2, 3, 4, 5, 6, 7, 8, 9, 10, 11, 12, 13, 14, 15, 16, 17, 18, 19, 20, 21, 22, 23,
               24, 25, 26, 27, 28, 29, 30, 31]"
  by code_simp

lemma replicate_25:
  "replicate 25 x = [x, x, x, x, x, x, x, x, x, x, x, x, x, x, x, x, x, x, x, x, x, x, x, x, x]"
  by (simp add: numeral_eq_Suc)

lemma list_update_numeral: "(x # xs)[numeral n := y] = x # xs[pred_numeral n := y]"
  by (simp add: numeral_eq_Suc)

lemma theta_C_unfold:
  "theta_C
      [a0, a1, a2, a3, a4, a5, a6, a7, a8, a9, a10, a11, a12, a13, a14, a15, a16, a17, a18,
       a19, a20, a21, a22, a23, a24] =
      [a0 XOR a5 XOR a10 XOR a15 XOR a20, a1 XOR a6 XOR a11 XOR a16 XOR a21,
       a2 XOR a7 XOR a12 XOR a17 XOR a22, a3 XOR a8 XOR a13 XOR a18 XOR a23,
       a4 XOR a9 XOR a14 XOR a19 XOR a24]"
  by (simp add: theta_C_def upt_5)

lemma xor_column_0:
  "xor_column
      [a0, a1, a2, a3, a4, a5, a6, a7, a8, a9, a10, a11, a12, a13, a14, a15, a16, a17, a18,
       a19, a20, a21, a22, a23, a24] 0 D =
      [a0 XOR D, a1, a2, a3, a4, a5 XOR D, a6, a7, a8, a9, a10 XOR D, a11, a12, a13, a14,
       a15 XOR D, a16, a17, a18, a19, a20 XOR D, a21, a22, a23, a24]"
  by (simp add: xor_column_def)

lemma xor_column_1:
  "xor_column
      [a0, a1, a2, a3, a4, a5, a6, a7, a8, a9, a10, a11, a12, a13, a14, a15, a16, a17, a18,
       a19, a20, a21, a22, a23, a24] (Suc 0) D =
      [a0, a1 XOR D, a2, a3, a4, a5, a6 XOR D, a7, a8, a9, a10, a11 XOR D, a12, a13, a14, a15,
       a16 XOR D, a17, a18, a19, a20, a21 XOR D, a22, a23, a24]"
  by (simp add: xor_column_def)

lemma xor_column_2:
  "xor_column
      [a0, a1, a2, a3, a4, a5, a6, a7, a8, a9, a10, a11, a12, a13, a14, a15, a16, a17, a18,
       a19, a20, a21, a22, a23, a24] 2 D =
      [a0, a1, a2 XOR D, a3, a4, a5, a6, a7 XOR D, a8, a9, a10, a11, a12 XOR D, a13, a14, a15,
       a16, a17 XOR D, a18, a19, a20, a21, a22 XOR D, a23, a24]"
  by (simp add: xor_column_def)

lemma xor_column_3:
  "xor_column
      [a0, a1, a2, a3, a4, a5, a6, a7, a8, a9, a10, a11, a12, a13, a14, a15, a16, a17, a18,
       a19, a20, a21, a22, a23, a24] 3 D =
      [a0, a1, a2, a3 XOR D, a4, a5, a6, a7, a8 XOR D, a9, a10, a11, a12, a13 XOR D, a14, a15,
       a16, a17, a18 XOR D, a19, a20, a21, a22, a23 XOR D, a24]"
  by (simp add: xor_column_def)

lemma xor_column_4:
  "xor_column
      [a0, a1, a2, a3, a4, a5, a6, a7, a8, a9, a10, a11, a12, a13, a14, a15, a16, a17, a18,
       a19, a20, a21, a22, a23, a24] 4 D =
      [a0, a1, a2, a3, a4 XOR D, a5, a6, a7, a8, a9 XOR D, a10, a11, a12, a13, a14 XOR D, a15,
       a16, a17, a18, a19 XOR D, a20, a21, a22, a23, a24 XOR D]"
  by (simp add: xor_column_def)

lemma theta_columns_unfold:
  "theta_columns [c0, c1, c2, c3, c4] st =
     xor_column (xor_column (xor_column (xor_column (xor_column st
       0 (c4 XOR rotl64 c1 1)) 1 (c0 XOR rotl64 c2 1)) 2 (c1 XOR rotl64 c3 1))
       3 (c2 XOR rotl64 c4 1)) 4 (c3 XOR rotl64 c0 1)"
  by (simp add: theta_columns_def theta_D_def upt_5)

lemma rho_pi_unfold:
  "rho_pi
      [b0, b1, b2, b3, b4, b5, b6, b7, b8, b9, b10, b11, b12, b13, b14, b15, b16, b17, b18,
       b19, b20, b21, b22, b23, b24] =
      [b0, rotl64 b6 44, rotl64 b12 43, rotl64 b18 21, rotl64 b24 14, rotl64 b3 28,
       rotl64 b9 20, rotl64 b10 3, rotl64 b16 45, rotl64 b22 61, rotl64 b1 1, rotl64 b7 6,
       rotl64 b13 25, rotl64 b19 8, rotl64 b20 18, rotl64 b4 27, rotl64 b5 36, rotl64 b11 10,
       rotl64 b17 15, rotl64 b23 56, rotl64 b2 62, rotl64 b8 55, rotl64 b14 39, rotl64 b15 41,
       rotl64 b21 2]"
  by (simp add: rho_pi_def pi_offsets_def rho_offsets_def upt_24)

lemma chi_unfold:
  "chi
      [e0, e1, e2, e3, e4, e5, e6, e7, e8, e9, e10, e11, e12, e13, e14, e15, e16, e17, e18,
       e19, e20, e21, e22, e23, e24] =
      [e0 XOR (NOT e1 AND e2), e1 XOR (NOT e2 AND e3), e2 XOR (NOT e3 AND e4),
       e3 XOR (NOT e4 AND e0), e4 XOR (NOT e0 AND e1), e5 XOR (NOT e6 AND e7),
       e6 XOR (NOT e7 AND e8), e7 XOR (NOT e8 AND e9), e8 XOR (NOT e9 AND e5),
       e9 XOR (NOT e5 AND e6), e10 XOR (NOT e11 AND e12), e11 XOR (NOT e12 AND e13),
       e12 XOR (NOT e13 AND e14), e13 XOR (NOT e14 AND e10), e14 XOR (NOT e10 AND e11),
       e15 XOR (NOT e16 AND e17), e16 XOR (NOT e17 AND e18), e17 XOR (NOT e18 AND e19),
       e18 XOR (NOT e19 AND e15), e19 XOR (NOT e15 AND e16), e20 XOR (NOT e21 AND e22),
       e21 XOR (NOT e22 AND e23), e22 XOR (NOT e23 AND e24), e23 XOR (NOT e24 AND e20),
       e24 XOR (NOT e20 AND e21)]"
  by (simp add: chi_def chi_row_def upt_5)

lemma iota_unfold: "iota r (a # st) = (a XOR keccak_round_constants ! r) # st"
  by (simp add: iota_def)

lemma keccak_f1600_unfold:
  "keccak_f1600 st =
     keccak_round 23 (keccak_round 22 (keccak_round 21 (keccak_round 20 (keccak_round 19
    (keccak_round 18 (keccak_round 17 (keccak_round 16 (keccak_round 15 (keccak_round 14
    (keccak_round 13 (keccak_round 12 (keccak_round 11 (keccak_round 10 (keccak_round 9
    (keccak_round 8 (keccak_round 7 (keccak_round 6 (keccak_round 5 (keccak_round 4
    (keccak_round 3 (keccak_round 2 (keccak_round 1 (keccak_round 0 st)))))))))))))))))))))))"
  unfolding keccak_f1600_def upt_24 by simp

lemma rotl64_masked:
  "n \<le> 64 \<Longrightarrow> rotl64 (word_of_int a) n =
     word_of_int (push_bit n (a AND mask (64 - n)) OR drop_bit (64 - n) (a AND mask 64))"
  unfolding rotl64_def
  by (rule bit_word_eqI) (auto simp add: bit_simps)

lemma rotl64_numeral:
  "n \<le> 64 \<Longrightarrow> rotl64 (numeral k) n =
     word_of_int (push_bit n (numeral k AND mask (64 - n))
                  OR drop_bit (64 - n) (numeral k AND mask 64))"
  using rotl64_masked [of n "numeral k"] by simp

lemma rotl64_0: "rotl64 0 n = 0"
  by (simp add: rotl64_def)

lemma rotl64_1: "0 < n \<Longrightarrow> n < 64 \<Longrightarrow> rotl64 1 n = 2 ^ n"
  unfolding rotl64_def
  by (rule bit_word_eqI) (auto simp add: bit_simps)

lemma rotl64_by_1:
  "rotl64 (numeral k) (Suc 0) =
     word_of_int (push_bit (Suc 0) (numeral k AND 0x7FFFFFFFFFFFFFFF)
                  OR drop_bit 63 (numeral k AND 0xFFFFFFFFFFFFFFFF))"
  using rotl64_numeral [of "(Suc 0)" k] by (simp add: mask_eq_exp_minus_1)

lemma rotl64_by_2:
  "rotl64 (numeral k) 2 =
     word_of_int (push_bit 2 (numeral k AND 0x3FFFFFFFFFFFFFFF)
                  OR drop_bit 62 (numeral k AND 0xFFFFFFFFFFFFFFFF))"
  using rotl64_numeral [of "2" k] by (simp add: mask_eq_exp_minus_1)

lemma rotl64_by_3:
  "rotl64 (numeral k) 3 =
     word_of_int (push_bit 3 (numeral k AND 0x1FFFFFFFFFFFFFFF)
                  OR drop_bit 61 (numeral k AND 0xFFFFFFFFFFFFFFFF))"
  using rotl64_numeral [of "3" k] by (simp add: mask_eq_exp_minus_1)

lemma rotl64_by_6:
  "rotl64 (numeral k) 6 =
     word_of_int (push_bit 6 (numeral k AND 0x3FFFFFFFFFFFFFF)
                  OR drop_bit 58 (numeral k AND 0xFFFFFFFFFFFFFFFF))"
  using rotl64_numeral [of "6" k] by (simp add: mask_eq_exp_minus_1)

lemma rotl64_by_8:
  "rotl64 (numeral k) 8 =
     word_of_int (push_bit 8 (numeral k AND 0xFFFFFFFFFFFFFF)
                  OR drop_bit 56 (numeral k AND 0xFFFFFFFFFFFFFFFF))"
  using rotl64_numeral [of "8" k] by (simp add: mask_eq_exp_minus_1)

lemma rotl64_by_10:
  "rotl64 (numeral k) 10 =
     word_of_int (push_bit 10 (numeral k AND 0x3FFFFFFFFFFFFF)
                  OR drop_bit 54 (numeral k AND 0xFFFFFFFFFFFFFFFF))"
  using rotl64_numeral [of "10" k] by (simp add: mask_eq_exp_minus_1)

lemma rotl64_by_14:
  "rotl64 (numeral k) 14 =
     word_of_int (push_bit 14 (numeral k AND 0x3FFFFFFFFFFFF)
                  OR drop_bit 50 (numeral k AND 0xFFFFFFFFFFFFFFFF))"
  using rotl64_numeral [of "14" k] by (simp add: mask_eq_exp_minus_1)

lemma rotl64_by_15:
  "rotl64 (numeral k) 15 =
     word_of_int (push_bit 15 (numeral k AND 0x1FFFFFFFFFFFF)
                  OR drop_bit 49 (numeral k AND 0xFFFFFFFFFFFFFFFF))"
  using rotl64_numeral [of "15" k] by (simp add: mask_eq_exp_minus_1)

lemma rotl64_by_18:
  "rotl64 (numeral k) 18 =
     word_of_int (push_bit 18 (numeral k AND 0x3FFFFFFFFFFF)
                  OR drop_bit 46 (numeral k AND 0xFFFFFFFFFFFFFFFF))"
  using rotl64_numeral [of "18" k] by (simp add: mask_eq_exp_minus_1)

lemma rotl64_by_20:
  "rotl64 (numeral k) 20 =
     word_of_int (push_bit 20 (numeral k AND 0xFFFFFFFFFFF)
                  OR drop_bit 44 (numeral k AND 0xFFFFFFFFFFFFFFFF))"
  using rotl64_numeral [of "20" k] by (simp add: mask_eq_exp_minus_1)

lemma rotl64_by_21:
  "rotl64 (numeral k) 21 =
     word_of_int (push_bit 21 (numeral k AND 0x7FFFFFFFFFF)
                  OR drop_bit 43 (numeral k AND 0xFFFFFFFFFFFFFFFF))"
  using rotl64_numeral [of "21" k] by (simp add: mask_eq_exp_minus_1)

lemma rotl64_by_25:
  "rotl64 (numeral k) 25 =
     word_of_int (push_bit 25 (numeral k AND 0x7FFFFFFFFF)
                  OR drop_bit 39 (numeral k AND 0xFFFFFFFFFFFFFFFF))"
  using rotl64_numeral [of "25" k] by (simp add: mask_eq_exp_minus_1)

lemma rotl64_by_27:
  "rotl64 (numeral k) 27 =
     word_of_int (push_bit 27 (numeral k AND 0x1FFFFFFFFF)
                  OR drop_bit 37 (numeral k AND 0xFFFFFFFFFFFFFFFF))"
  using rotl64_numeral [of "27" k] by (simp add: mask_eq_exp_minus_1)

lemma rotl64_by_28:
  "rotl64 (numeral k) 28 =
     word_of_int (push_bit 28 (numeral k AND 0xFFFFFFFFF)
                  OR drop_bit 36 (numeral k AND 0xFFFFFFFFFFFFFFFF))"
  using rotl64_numeral [of "28" k] by (simp add: mask_eq_exp_minus_1)

lemma rotl64_by_36:
  "rotl64 (numeral k) 36 =
     word_of_int (push_bit 36 (numeral k AND 0xFFFFFFF)
                  OR drop_bit 28 (numeral k AND 0xFFFFFFFFFFFFFFFF))"
  using rotl64_numeral [of "36" k] by (simp add: mask_eq_exp_minus_1)

lemma rotl64_by_39:
  "rotl64 (numeral k) 39 =
     word_of_int (push_bit 39 (numeral k AND 0x1FFFFFF)
                  OR drop_bit 25 (numeral k AND 0xFFFFFFFFFFFFFFFF))"
  using rotl64_numeral [of "39" k] by (simp add: mask_eq_exp_minus_1)

lemma rotl64_by_41:
  "rotl64 (numeral k) 41 =
     word_of_int (push_bit 41 (numeral k AND 0x7FFFFF)
                  OR drop_bit 23 (numeral k AND 0xFFFFFFFFFFFFFFFF))"
  using rotl64_numeral [of "41" k] by (simp add: mask_eq_exp_minus_1)

lemma rotl64_by_43:
  "rotl64 (numeral k) 43 =
     word_of_int (push_bit 43 (numeral k AND 0x1FFFFF)
                  OR drop_bit 21 (numeral k AND 0xFFFFFFFFFFFFFFFF))"
  using rotl64_numeral [of "43" k] by (simp add: mask_eq_exp_minus_1)

lemma rotl64_by_44:
  "rotl64 (numeral k) 44 =
     word_of_int (push_bit 44 (numeral k AND 0xFFFFF)
                  OR drop_bit 20 (numeral k AND 0xFFFFFFFFFFFFFFFF))"
  using rotl64_numeral [of "44" k] by (simp add: mask_eq_exp_minus_1)

lemma rotl64_by_45:
  "rotl64 (numeral k) 45 =
     word_of_int (push_bit 45 (numeral k AND 0x7FFFF)
                  OR drop_bit 19 (numeral k AND 0xFFFFFFFFFFFFFFFF))"
  using rotl64_numeral [of "45" k] by (simp add: mask_eq_exp_minus_1)

lemma rotl64_by_55:
  "rotl64 (numeral k) 55 =
     word_of_int (push_bit 55 (numeral k AND 0x1FF)
                  OR drop_bit 9 (numeral k AND 0xFFFFFFFFFFFFFFFF))"
  using rotl64_numeral [of "55" k] by (simp add: mask_eq_exp_minus_1)

lemma rotl64_by_56:
  "rotl64 (numeral k) 56 =
     word_of_int (push_bit 56 (numeral k AND 0xFF)
                  OR drop_bit 8 (numeral k AND 0xFFFFFFFFFFFFFFFF))"
  using rotl64_numeral [of "56" k] by (simp add: mask_eq_exp_minus_1)

lemma rotl64_by_61:
  "rotl64 (numeral k) 61 =
     word_of_int (push_bit 61 (numeral k AND 0x7)
                  OR drop_bit 3 (numeral k AND 0xFFFFFFFFFFFFFFFF))"
  using rotl64_numeral [of "61" k] by (simp add: mask_eq_exp_minus_1)

lemma rotl64_by_62:
  "rotl64 (numeral k) 62 =
     word_of_int (push_bit 62 (numeral k AND 0x3)
                  OR drop_bit 2 (numeral k AND 0xFFFFFFFFFFFFFFFF))"
  using rotl64_numeral [of "62" k] by (simp add: mask_eq_exp_minus_1)

lemmas rotl64_eval = rotl64_0 rotl64_1
  rotl64_by_1 rotl64_by_2 rotl64_by_3 rotl64_by_6 rotl64_by_8 rotl64_by_10 rotl64_by_14
  rotl64_by_15 rotl64_by_18 rotl64_by_20 rotl64_by_21 rotl64_by_25 rotl64_by_27
  rotl64_by_28 rotl64_by_36 rotl64_by_39 rotl64_by_41 rotl64_by_43 rotl64_by_44
  rotl64_by_45 rotl64_by_55 rotl64_by_56 rotl64_by_61 rotl64_by_62

lemmas keccak_round_eval =
  keccak_round_def theta_def theta_C_unfold theta_columns_unfold
  xor_column_0 xor_column_1 xor_column_2 xor_column_3 xor_column_4
  rho_pi_unfold chi_unfold iota_unfold keccak_round_constants_def rotl64_eval

section \<open>The sponge around the permutation\<close>

lemma length_xor_column [simp]: "length (xor_column st i D) = length st"
  by (simp add: xor_column_def)

lemma length_theta [simp]: "length (theta st) = length st"
  by (simp add: theta_def theta_columns_def upt_5)

lemma length_rho_pi_loop:
  "length (fst (fold (\<lambda>i (s, current).
                  let j = pi_offsets ! i; temp = s ! j
                  in (s[j := rotl64 current (rho_offsets ! i)], temp)) is (s0, c0))) = length s0"
  by (induction "is" arbitrary: s0 c0) (simp_all add: Let_def)

lemma length_rho_pi [simp]: "length (rho_pi st) = length st"
  unfolding rho_pi_def by (rule length_rho_pi_loop)

lemma length_chi_row [simp]: "length (chi_row st j) = length st"
  by (simp add: chi_row_def upt_5 Let_def)

lemma length_chi [simp]: "length (chi st) = length st"
  by (simp add: chi_def)

lemma length_keccak_round [simp]: "length (keccak_round r st) = length st"
  by (simp add: keccak_round_def iota_def)

lemma length_fold_keccak_round: "length (fold keccak_round rs st) = length st"
  by (induction rs arbitrary: st) simp_all

lemma length_keccak_f1600 [simp]: "length (keccak_f1600 st) = length st"
  by (simp add: keccak_f1600_def length_fold_keccak_round)

lemma length_xor_state_byte [simp]: "length (xor_state_byte st i b) = length st"
  by (simp add: xor_state_byte_def)

lemma length_xor_block [simp]: "length (xor_block st i bs) = length st"
  by (induction bs arbitrary: st i) simp_all

text \<open>The absorb loop consumes whole blocks of 136 bytes and keeps the state at 25 lanes.\<close>

lemma absorb_rest_of_input:
  "snd (absorb st input) = drop (136 * (length input div 136)) input"
proof (induction st input rule: absorb.induct)
  case (1 st input)
  show ?case
  proof (cases "136 \<le> length input")
    case True
    then have "length input div 136 = Suc ((length input - 136) div 136)"
      by (simp add: le_div_geq)
    with True 1 show ?thesis
      by (subst absorb.simps) (simp add: algebra_simps)
  next
    case False
    then show ?thesis
      by (subst absorb.simps) simp
  qed
qed

lemma absorb_length_state: "length (fst (absorb st input)) = length st"
proof (induction st input rule: absorb.induct)
  case (1 st input)
  then show ?case
    by (subst absorb.simps) simp
qed

lemma absorb_rest_length: "length (snd (absorb st input)) = length input mod 136"
proof -
  have "length input - 136 * (length input div 136) = length input mod 136"
    by (simp add: minus_mult_div_eq_mod)
  then show ?thesis
    by (simp add: absorb_rest_of_input)
qed

text \<open>The byte view of the lanes: XORing into state byte \<open>i\<close> changes that byte and no other.\<close>

lemma byte_of_shifted_byte:
  assumes "i < 8" "k < 8"
  shows "(ucast (drop_bit (8 * k) (push_bit (8 * i) (ucast (b :: byte) :: lane))) :: byte)
           = (if k = i then b else 0)"
proof (rule bit_word_eqI)
  fix n
  assume "n < LENGTH(8)"
  then have n: "n < 8" by simp
  show "bit (ucast (drop_bit (8 * k) (push_bit (8 * i) (ucast b :: lane))) :: byte) n
          = bit (if k = i then b else 0) n"
  proof (cases "k = i")
    case True
    with n assms show ?thesis
      by (auto simp add: bit_simps)
  next
    case False
    then have "8 * k + n < 8 * i \<or> 8 \<le> 8 * k + n - 8 * i"
      using n by arith
    with False n assms show ?thesis
      by (auto simp add: bit_simps dest: bit_imp_le_length)
  qed
qed

lemma get_xor_state_byte:
  assumes "i div 8 < length st"
  shows "get_state_byte (xor_state_byte st i b) k
           = (if k = i then get_state_byte st k XOR b else get_state_byte st k)"
proof (cases "k div 8 = i div 8")
  case False
  then have "k \<noteq> i" by auto
  with False show ?thesis
    by (simp add: get_state_byte_def xor_state_byte_def)
next
  case True
  have "(ucast (drop_bit (8 * (k mod 8)) (st ! (i div 8) XOR push_bit (8 * (i mod 8)) (ucast b))) :: byte)
          = ucast (drop_bit (8 * (k mod 8)) (st ! (i div 8)))
            XOR ucast (drop_bit (8 * (k mod 8)) (push_bit (8 * (i mod 8)) (ucast b :: lane)))"
    by (rule bit_word_eqI) (auto simp add: bit_simps)
  also have "\<dots> = ucast (drop_bit (8 * (k mod 8)) (st ! (i div 8)))
                   XOR (if k mod 8 = i mod 8 then b else 0)"
    by (simp add: byte_of_shifted_byte)
  finally have "get_state_byte (xor_state_byte st i b) k
          = get_state_byte st k XOR (if k mod 8 = i mod 8 then b else 0)"
    using True assms by (simp add: get_state_byte_def xor_state_byte_def)
  moreover have "k mod 8 = i mod 8 \<longleftrightarrow> k = i"
    using True by (metis div_mult_mod_eq)
  ultimately show ?thesis by simp
qed

lemma get_pad_state:
  assumes "length st = 25" "r < 136"
  shows "get_state_byte (pad_state st r) k
           = get_state_byte st k XOR (if k = r then 0x01 else 0) XOR (if k = 135 then 0x80 else 0)"
proof -
  have "r div 8 < length st" "135 div 8 < length (xor_state_byte st r 0x01)"
    using assms by simp_all
  then show ?thesis
    by (simp add: pad_state_def get_xor_state_byte xor.assoc)
qed

lemma keccak256_structure:
  "keccak256 input =
     map (get_state_byte (keccak_f1600
            (pad_state (absorb_rest (fst (absorb (replicate 25 0) input))
                                    (snd (absorb (replicate 25 0) input)))
                       (length (snd (absorb (replicate 25 0) input))))))
         [0..<32]"
  by (simp add: keccak256_def keccak_finish_def split: prod.split)

lemma length_keccak256 [simp]: "length (keccak256 input) = 32"
  by (simp add: keccak256_structure)

lemma xor_block_step: "xor_block st i (b # bs) = xor_block (xor_state_byte st i b) (i + 1) bs"
  by simp

lemma keccak256_short:
  "length input < 136 \<Longrightarrow>
   keccak256 input =
     map (get_state_byte
            (keccak_f1600 (pad_state (absorb_rest (replicate 25 0) input) (length input))))
         [0..<32]"
  by (simp add: keccak256_def absorb.simps keccak_finish_def)

lemmas pad_state_eval =
  pad_state_def absorb_rest_def xor_block_step xor_state_byte_def replicate_25 list_update_numeral

lemma keccak_f1600_empty:
  "keccak_f1600
     [1, 0, 0, 0, 0, 0, 0, 0, 0, 0, 0, 0, 0, 0, 0, 0, 9223372036854775808, 0, 0,
      0, 0, 0, 0, 0, 0] =
     [4333579421379646149, 13836122230913597074, 4262519377828905189,
      8116759062988257915, 8406387447366859581, 14671339323370021561,
      2243375101132795228, 9371364203318886753, 9347994793612953298,
      12814238161780307547, 4391692840257016808, 4309499098775122448,
      13438072403645551266, 18018124564071650747, 4323130096954625545,
      16970298442240338249, 1971761234120675839, 450719451514497906,
      18340686150147091359, 11254645818134300982, 16062291397582171322,
      1601982631079003425, 7734681229251997073, 13256946727218518206,
      11816912122432958423]"
  by (simp add: keccak_f1600_unfold keccak_round_eval)

lemma keccak256_empty:
  "keccak256 [] =
     [0xc5, 0xd2, 0x46, 0x01, 0x86, 0xf7, 0x23, 0x3c, 0x92, 0x7e, 0x7d, 0xb2, 0xdc, 0xc7, 0x03, 0xc0,
      0xe5, 0x00, 0xb6, 0x53, 0xca, 0x82, 0x27, 0x3b, 0x7b, 0xfa, 0xd8, 0x04, 0x5d, 0x85, 0xa4, 0x70]"
proof -
  have "pad_state (absorb_rest (replicate 25 0) []) (length ([] :: byte list)) =
     [1, 0, 0, 0, 0, 0, 0, 0, 0, 0, 0, 0, 0, 0, 0, 0, 9223372036854775808, 0, 0,
      0, 0, 0, 0, 0, 0]"
    by (simp del: xor_block.simps(2) add: pad_state_eval)
  then show ?thesis
    by (simp add: keccak256_short keccak_f1600_empty get_state_byte_def upt_32)
qed

lemma keccak_f1600_abc:
  "keccak_f1600
     [23290465, 0, 0, 0, 0, 0, 0, 0, 0, 0, 0, 0, 0, 0, 0, 0,
      9223372036854775808, 0, 0, 0, 0, 0, 0, 0, 0] =
     [5740196073438511950, 7482387899283657927, 3936256278416249280,
      5002423458029978860, 13520392252802215041, 18171362494331576431,
      3215941604397401109, 356599266168485374, 6353066176999717069,
      3157452396987657980, 9568101118258988932, 8254641550496870826,
      2152522230817382502, 3069919761365557184, 10654843065426652043,
      1598426077798891850, 4793818036351967518, 15475627092364680689,
      3364682653216640396, 10652805097983562137, 6992447527803355908,
      9126957997163399378, 5802447900598878421, 9879892396486539214,
      15780435445017591194]"
  by (simp add: keccak_f1600_unfold keccak_round_eval)

lemma keccak256_abc:
  "keccak256 [0x61, 0x62, 0x63] =
     [0x4e, 0x03, 0x65, 0x7a, 0xea, 0x45, 0xa9, 0x4f, 0xc7, 0xd4, 0x7b, 0xa8, 0x26, 0xc8, 0xd6, 0x67,
      0xc0, 0xd1, 0xe6, 0xe3, 0x3a, 0x64, 0xa0, 0x36, 0xec, 0x44, 0xf5, 0x8f, 0xa1, 0x2d, 0x6c, 0x45]"
proof -
  have "pad_state (absorb_rest (replicate 25 0) [0x61, 0x62, 0x63])
          (length [0x61, 0x62, 0x63 :: byte]) =
     [23290465, 0, 0, 0, 0, 0, 0, 0, 0, 0, 0, 0, 0, 0, 0, 0,
      9223372036854775808, 0, 0, 0, 0, 0, 0, 0, 0]"
    by (simp del: xor_block.simps(2) add: pad_state_eval)
  then show ?thesis
    by (simp add: keccak256_short keccak_f1600_abc get_state_byte_def upt_32)
qed

lemma keccak_f1600_signature:
  "keccak_f1600
     [8315165988827194727, 8391094959798831220, 8247343452173265266,
      7598263559342485097, 7956016061200754542, 7453010373645642855, 297, 0, 0,
      0, 0, 0, 0, 0, 0, 0, 9223372036854775808, 0, 0, 0, 0, 0, 0, 0, 0] =
     [1236495399363074832, 13422742980042689455, 12039345660058912821,
      15934444879737923464, 11400601826273523203, 7300298780654885951,
      7998176639797407731, 10489885869760101048, 18109470334006823767,
      987255133802504207, 1902085654099933964, 10322707588429216444,
      13479071150696112209, 7393976641908925056, 7323904547309551838,
      14325758765214194270, 10045686029512380639, 6964163386241555364,
      18304717467156714618, 6698096409603762542, 14782000456774587804,
      772135712539999371, 15904732746390221237, 14853999481296418449,
      5209797598165576041]"
  by (simp add: keccak_f1600_unfold keccak_round_eval)

lemma keccak256_signature:
  "take 4 (keccak256 (map of_char ''getDigestHash(string,string,string,string,string)'')) =
     [0x10, 0xdb, 0x70, 0xb5]"
proof -
  have "pad_state (absorb_rest (replicate 25 0)
           (map of_char ''getDigestHash(string,string,string,string,string)''))
          (length (map of_char ''getDigestHash(string,string,string,string,string)'' :: byte list)) =
     [8315165988827194727, 8391094959798831220, 8247343452173265266,
      7598263559342485097, 7956016061200754542, 7453010373645642855, 297, 0, 0,
      0, 0, 0, 0, 0, 0, 0, 9223372036854775808, 0, 0, 0, 0, 0, 0, 0, 0]"
    by (simp del: xor_block.simps(2) add: pad_state_eval)
  then show ?thesis
    by (simp add: keccak256_short keccak_f1600_signature get_state_byte_def upt_32)
qed

section \<open>Claims about the hash engine\<close>

text \<open>
  Claim C3. \<^verbatim>\<open>keccak256\<close> of the empty input and of the three bytes \<open>abc\<close> are the
  published Keccak-256 digests (original padding):
  \<open>c5d24601 86f7233c 927e7db2 dcc703c0 e500b653 ca82273b 7bfad804 5d85a470\<close> and
  \<open>4e03657a ea45a94f c7d47ba8 26c8d667 c0d1e6e3 3a64a036 ec44f58f a12d6c45\<close>.
\<close>

theorem keccak256_reference_digests:
  "keccak256 [] =
     [0xc5, 0xd2, 0x46, 0x01, 0x86, 0xf7, 0x23, 0x3c, 0x92, 0x7e, 0x7d, 0xb2, 0xdc, 0xc7, 0x03, 0xc0,
      0xe5, 0x00, 0xb6, 0x53, 0xca, 0x82, 0x27, 0x3b, 0x7b, 0xfa, 0xd8, 0x04, 0x5d, 0x85, 0xa4, 0x70]
   \<and> keccak256 (map of_char ''abc'') =
     [0x4e, 0x03, 0x65, 0x7a, 0xea, 0x45, 0xa9, 0x4f, 0xc7, 0xd4, 0x7b, 0xa8, 0x26, 0xc8, 0xd6, 0x67,
      0xc0, 0xd1, 0xe6, 0xe3, 0x3a, 0x64, 0xa0, 0x36, 0xec, 0x44, 0xf5, 0x8f, 0xa1, 0x2d, 0x6c, 0x45]"
proof -
  have "map of_char ''abc'' = [0x61, 0x62, 0x63 :: byte]"
    by simp
  then show ?thesis
    by (simp only: keccak256_empty keccak256_abc simp_thms)
qed

text \<open>
  Claim C4. After the absorb loop fewer than 136 bytes of input are left (the last
  \<open>length input mod 136\<close> ones). The padding changes the state bytes as follows: byte
  \<open>k\<close> of the padded state is byte \<open>k\<close> of the state before padding, XOR \<open>0x01\<close> when
  \<open>k\<close> is the number of remaining bytes, XOR \<open>0x80\<close> when \<open>k = 135\<close>; with 135 bytes left
  both fall on byte 135, which is XORed with \<open>0x81\<close>. The digest is the first 32 bytes
  of one permutation of the padded state.
\<close>

theorem keccak256_padding:
  assumes "k < 200"
  shows "length (remaining_input input) = length input mod 136
       \<and> length (remaining_input input) < 136
       \<and> remaining_input input = drop (length input - length input mod 136) input
       \<and> get_state_byte (padded_state input) k
           = get_state_byte (absorbed_state input) k
               XOR (if k = length (remaining_input input) then 0x01 else 0)
               XOR (if k = 135 then 0x80 else 0)
       \<and> (length (remaining_input input) = 135 \<longrightarrow>
            get_state_byte (padded_state input) 135
              = get_state_byte (absorbed_state input) 135 XOR 0x81)
       \<and> keccak256 input = map (get_state_byte (keccak_f1600 (padded_state input))) [0..<32]"
proof -
  have len: "length (remaining_input input) = length input mod 136"
    by (simp add: remaining_input_def absorb_rest_length)
  then have lt: "length (remaining_input input) < 136"
    by simp
  have "136 * (length input div 136) = length input - length input mod 136"
    by (simp add: minus_mod_eq_mult_div [symmetric])
  then have rest: "remaining_input input = drop (length input - length input mod 136) input"
    by (simp add: remaining_input_def absorb_rest_of_input)
  have st: "length (absorbed_state input) = 25"
    by (simp add: absorbed_state_def absorb_rest_def absorb_length_state)
  have bytes: "get_state_byte (padded_state input) j
           = get_state_byte (absorbed_state input) j
               XOR (if j = length (remaining_input input) then 0x01 else 0)
               XOR (if j = 135 then 0x80 else 0)" for j
    unfolding padded_state_def using st lt by (rule get_pad_state)
  have both: "length (remaining_input input) = 135 \<Longrightarrow>
            get_state_byte (padded_state input) 135
              = get_state_byte (absorbed_state input) 135 XOR 0x81"
    using bytes [of 135] by simp
  have digest: "keccak256 input = map (get_state_byte (keccak_f1600 (padded_state input))) [0..<32]"
    by (simp add: keccak256_structure padded_state_def absorbed_state_def remaining_input_def)
  from len lt rest bytes [of k] both digest show ?thesis
    by blast
qed

theorem keccak256_padding_witness:
  "(135 :: nat) < 200
   \<and> length (remaining_input (replicate 135 0x61)) = 135
   \<and> get_state_byte (padded_state (replicate 135 0x61)) 135
        = get_state_byte (absorbed_state (replicate 135 0x61)) 135 XOR 0x81
   \<and> keccak256 (replicate 135 0x61)
        = map (get_state_byte (keccak_f1600 (padded_state (replicate 135 0x61)))) [0..<32]"
proof -
  have k: "(135 :: nat) < 200"
    by simp
  show ?thesis
    using keccak256_padding [OF k, of "replicate 135 0x61"] by simp
qed

end
